theory Spec2Isabelle
  imports Main "HOL-Library.Sublist" "HOL-Library.AList"
begin

section \<open>Python values the operations handle\<close>

text \<open>
  The file \<^verbatim>\<open>app.py\<close> holds one security check, \<^verbatim>\<open>enforce_security\<close>, and eight
  operations that call it before they touch the network, a subprocess or the filesystem.
  A Python \<^verbatim>\<open>str\<close> is a \<^typ>\<open>string\<close> here (code points up to 255). An exception is a
  value of \<open>error\<close>; a function that may raise returns \<open>error + 'a\<close>, with \<open>Inl\<close> the
  exception.
\<close>

datatype error =
    PermissionError string
  | RuntimeError string "error option"
  | TypeError
  | AttributeError
  | JSONDecodeError
  | FileNotFoundError string
  | IsADirectoryError string
  | NotADirectoryError string
  | TooManyLinks string
  | NameTooLong string
  | ValueError
  | CalledProcessError "string list" int
  | LibraryError string

text \<open>
  \<open>RuntimeError msg cause\<close> stands for \<^verbatim>\<open>RuntimeError(f"{msg}{str(e)}")\<close> when \<open>cause\<close> is
  \<open>Some e\<close> and for \<^verbatim>\<open>RuntimeError(msg)\<close> when it is \<open>None\<close>. \<open>LibraryError\<close> is any exception
  a library collaborator raises (requests, sqlite3, duckdb, PIL, whisper, markdown, pandas).
  \<open>TooManyLinks\<close> and \<open>NameTooLong\<close> are the \<^verbatim>\<open>OSError\<close> of a loop of symbolic links and
  of a name or path over the system's limit.
\<close>

datatype json =
    JNull
  | JBool bool
  | JInt int
  | JStr string
  | JArr "json list"
  | JObj "(string \<times> json) list"

text \<open>
  The values \<^verbatim>\<open>response.json()\<close> returns and \<^verbatim>\<open>json.dump\<close> prints: \<^verbatim>\<open>None\<close>, \<^verbatim>\<open>bool\<close>,
  \<^verbatim>\<open>int\<close>, \<^verbatim>\<open>str\<close>, \<^verbatim>\<open>list\<close> and \<^verbatim>\<open>dict\<close> (insertion-ordered, string keys). Floating
  point numbers are left out.
\<close>

subsection \<open>String tests\<close>

definition startswith :: "string \<Rightarrow> string \<Rightarrow> bool" where
  "startswith s pre = prefix pre s"

definition endswith :: "string \<Rightarrow> string \<Rightarrow> bool" where
  "endswith s suf = suffix suf s"

text \<open>\<^verbatim>\<open>needle in haystack\<close> on strings.\<close>

fun str_contains :: "string \<Rightarrow> string \<Rightarrow> bool" where
  "str_contains needle [] = (needle = [])"
| "str_contains needle (c # cs) = (prefix needle (c # cs) \<or> str_contains needle cs)"

subsection \<open>Printing integers and JSON\<close>

definition digit_char :: "nat \<Rightarrow> char" where
  "digit_char d = ''0123456789abcdef'' ! (d mod 16)"

function str_nat :: "nat \<Rightarrow> string" where
  "str_nat n = (if n < 10 then [digit_char n] else str_nat (n div 10) @ [digit_char (n mod 10)])"
  by pat_completeness auto
termination
  by (relation "measure id") auto

declare str_nat.simps [simp del]

definition str_int :: "int \<Rightarrow> string" where
  "str_int i = (if i < 0 then CHR ''-'' # str_nat (nat (- i)) else str_nat (nat i))"

text \<open>
  \<^verbatim>\<open>json.dump\<close> escapes with \<^verbatim>\<open>ensure_ascii=True\<close>: the quote, the backslash and the
  control characters with a short form get it, every other character outside
  \<^verbatim>\<open>' '..'~'\<close> becomes \<^verbatim>\<open>\uXXXX\<close>.
\<close>

definition escape_char :: "char \<Rightarrow> string" where
  "escape_char c =
     (let n = of_char c :: nat in
      if c = CHR ''\"'' then [CHR 0x5C, CHR ''\"'']
      else if n = 0x5C then [CHR 0x5C, CHR 0x5C]
      else if n = 0x0A then [CHR 0x5C, CHR ''n'']
      else if n = 0x0D then [CHR 0x5C, CHR ''r'']
      else if n = 0x09 then [CHR 0x5C, CHR ''t'']
      else if n = 0x08 then [CHR 0x5C, CHR ''b'']
      else if n = 0x0C then [CHR 0x5C, CHR ''f'']
      else if n < 0x20 \<or> 0x7E < n then
        [CHR 0x5C, CHR ''u'', CHR ''0'', CHR ''0'', digit_char (n div 16), digit_char (n mod 16)]
      else [c])"

definition json_string :: "string \<Rightarrow> string" where
  "json_string s = [CHR ''\"''] @ concat (map escape_char s) @ [CHR ''\"'']"

fun join :: "string \<Rightarrow> string list \<Rightarrow> string" where
  "join sep [] = []"
| "join sep [x] = x"
| "join sep (x # y # ys) = x @ sep @ join sep (y # ys)"

definition newline_indent :: "nat \<Rightarrow> string" where
  "newline_indent level = CHR 0x0A # replicate (4 * level) CHR '' ''"

text \<open>\<^verbatim>\<open>json.dumps(v, indent=4)\<close>, at nesting depth \<open>level\<close>.\<close>

fun dumps :: "nat \<Rightarrow> json \<Rightarrow> string" where
  "dumps level JNull = ''null''"
| "dumps level (JBool b) = (if b then ''true'' else ''false'')"
| "dumps level (JInt i) = str_int i"
| "dumps level (JStr s) = json_string s"
| "dumps level (JArr []) = ''[]''"
| "dumps level (JArr (x # xs)) =
     ''['' @ newline_indent (Suc level)
     @ join (CHR '','' # newline_indent (Suc level)) (map (dumps (Suc level)) (x # xs))
     @ newline_indent level @ '']''"
| "dumps level (JObj []) = ''{}''"
| "dumps level (JObj (kv # kvs)) =
     ''{'' @ newline_indent (Suc level)
     @ join (CHR '','' # newline_indent (Suc level))
         (map (\<lambda>kv. json_string (fst kv) @ '': '' @ dumps (Suc level) (snd kv)) (kv # kvs))
     @ newline_indent level @ ''}''"

definition json_dump_indent4 :: "json \<Rightarrow> string" where
  "json_dump_indent4 v = dumps 0 v"

section \<open>The filesystem\<close>

text \<open>
  What \<^verbatim>\<open>os.path.exists\<close> and \<^verbatim>\<open>open\<close> see: a tree of directories, regular files and
  symbolic links, kept as a map from a location (the names from the root down) to the
  node there. The root is a directory. A path string is looked up the way the kernel
  does it: name by name, \<^verbatim>\<open>..\<close> stepping to the parent of the directory reached, a
  symbolic link replaced by its target, at most \<open>max_symlinks\<close> times. The working
  directory of the process is the root, and the process may read and write everywhere:
  access rights, quotas and a full disk are not part of the model.
\<close>

datatype node = File string | Dir | Symlink string

type_synonym location = "string list"

type_synonym filesystem = "location \<Rightarrow> node option"

definition lookup :: "filesystem \<Rightarrow> location \<Rightarrow> node option" where
  "lookup fs loc = (if loc = [] then Some Dir else fs loc)"

text \<open>\<^verbatim>\<open>path.split('/')\<close>.\<close>

fun split_path :: "string \<Rightarrow> string list" where
  "split_path [] = [[]]"
| "split_path (c # cs) =
     (if c = CHR ''/'' then [] # split_path cs
      else (case split_path cs of [] \<Rightarrow> [[c]] | x # xs \<Rightarrow> (c # x) # xs))"

definition link_start :: "location \<Rightarrow> string \<Rightarrow> location" where
  "link_start cur target = (if startswith target ''/'' then [] else cur)"

definition max_symlinks :: nat where
  "max_symlinks = 40"

text \<open>
  The limits of the system on a name and on a path, in bytes of the UTF-8 form the
  kernel is handed: a code point from 128 on takes two bytes.
\<close>

definition utf8_length :: "string \<Rightarrow> nat" where
  "utf8_length s = length s + length (filter (\<lambda>c. 128 \<le> (of_char c :: nat)) s)"

definition name_max :: nat where
  "name_max = 255"

definition path_max :: nat where
  "path_max = 4096"

text \<open>
  What is wrong with a path string before any lookup: a NUL character (Python raises
  \<^verbatim>\<open>ValueError\<close>), the empty path, a path of \<open>path_max\<close> bytes or more.
\<close>

definition path_error :: "string \<Rightarrow> error option" where
  "path_error path =
     (if CHR 0x00 \<in> set path then Some ValueError
      else if path = [] then Some (FileNotFoundError path)
      else if path_max \<le> utf8_length path then Some (NameTooLong path)
      else None)"

text \<open>
  \<open>walk fs path fuel cur names\<close>: the location the names lead to from the directory
  \<open>cur\<close>, every name of which must exist (\<^verbatim>\<open>stat\<close>), or the error of the lookup.
\<close>

fun walk :: "filesystem \<Rightarrow> string \<Rightarrow> nat \<Rightarrow> location \<Rightarrow> string list \<Rightarrow> error + location" where
  "walk fs path fuel cur [] = Inr cur"
| "walk fs path fuel cur (c # cs) =
     (if c = [] \<or> c = ''.'' then walk fs path fuel cur cs
      else if c = ''..'' then walk fs path fuel (butlast cur) cs
      else if name_max < utf8_length c then Inl (NameTooLong path)
      else (case lookup fs (cur @ [c]) of
              None \<Rightarrow> Inl (FileNotFoundError path)
            | Some (File x) \<Rightarrow> if cs = [] then Inr (cur @ [c]) else Inl (NotADirectoryError path)
            | Some Dir \<Rightarrow> walk fs path fuel (cur @ [c]) cs
            | Some (Symlink t) \<Rightarrow>
                (case fuel of
                   0 \<Rightarrow> Inl (TooManyLinks path)
                 | Suc k \<Rightarrow> walk fs path k (link_start cur t) (split_path t @ cs))))"

definition stat :: "filesystem \<Rightarrow> string \<Rightarrow> error + location" where
  "stat fs path =
     (case path_error path of
        Some e \<Rightarrow> Inl e
      | None \<Rightarrow> walk fs path max_symlinks [] (split_path path))"

text \<open>
  \<^verbatim>\<open>os.path.exists(path)\<close>: whether \<^verbatim>\<open>os.stat(path)\<close> succeeds; an \<^verbatim>\<open>OSError\<close> or a
  \<^verbatim>\<open>ValueError\<close> of the call makes it \<^verbatim>\<open>False\<close>.
\<close>

definition os_path_exists :: "filesystem \<Rightarrow> string \<Rightarrow> bool" where
  "os_path_exists fs path = (case stat fs path of Inl e \<Rightarrow> False | Inr loc \<Rightarrow> True)"

text \<open>
  \<open>target fs path fuel cur names\<close>: the location \<^verbatim>\<open>open(path, 'w')\<close> writes to. The last
  name may be missing (the file is created there); a dangling symbolic link in last
  place is followed to the file it names; a missing name with a slash after it is
  taken for a directory.
\<close>

fun target :: "filesystem \<Rightarrow> string \<Rightarrow> nat \<Rightarrow> location \<Rightarrow> string list \<Rightarrow> error + location" where
  "target fs path fuel cur [] = Inl (IsADirectoryError path)"
| "target fs path fuel cur (c # cs) =
     (if c = [] \<or> c = ''.'' then target fs path fuel cur cs
      else if c = ''..'' then target fs path fuel (butlast cur) cs
      else if name_max < utf8_length c then Inl (NameTooLong path)
      else (case lookup fs (cur @ [c]) of
              None \<Rightarrow>
                if cs = [] then Inr (cur @ [c])
                else if concat cs = [] then Inl (IsADirectoryError path)
                else Inl (FileNotFoundError path)
            | Some (File x) \<Rightarrow> if cs = [] then Inr (cur @ [c]) else Inl (NotADirectoryError path)
            | Some Dir \<Rightarrow> target fs path fuel (cur @ [c]) cs
            | Some (Symlink t) \<Rightarrow>
                (case fuel of
                   0 \<Rightarrow> Inl (TooManyLinks path)
                 | Suc k \<Rightarrow> target fs path k (link_start cur t) (split_path t @ cs))))"

text \<open>\<^verbatim>\<open>open(path, 'w')\<close>: the file is created or emptied; the handle is its location.\<close>

definition open_w :: "filesystem \<Rightarrow> string \<Rightarrow> error + (location \<times> filesystem)" where
  "open_w fs path =
     (case path_error path of
        Some e \<Rightarrow> Inl e
      | None \<Rightarrow>
          (case target fs path max_symlinks [] (split_path path) of
             Inl e \<Rightarrow> Inl e
           | Inr loc \<Rightarrow> Inr (loc, fs(loc \<mapsto> File []))))"

text \<open>\<^verbatim>\<open>file.write(s)\<close> on a handle opened for writing.\<close>

definition file_write :: "filesystem \<Rightarrow> location \<Rightarrow> string \<Rightarrow> filesystem" where
  "file_write fs loc s =
     (case fs loc of Some (File old) \<Rightarrow> fs(loc \<mapsto> File (old @ s)) | _ \<Rightarrow> fs(loc \<mapsto> File s))"

text \<open>\<^verbatim>\<open>open(path, 'r').read()\<close>.\<close>

definition read_file :: "filesystem \<Rightarrow> string \<Rightarrow> error + string" where
  "read_file fs path =
     (case stat fs path of
        Inl e \<Rightarrow> Inl e
      | Inr loc \<Rightarrow>
          (case lookup fs loc of
             Some (File s) \<Rightarrow> Inr s
           | _ \<Rightarrow> Inl (IsADirectoryError path)))"

text \<open>
  \<open>resolve fs fuel cur names\<close>: the normalized, symlink-resolved form of a path, as
  \<^verbatim>\<open>os.path.realpath\<close> computes it: \<^verbatim>\<open>.\<close> and \<^verbatim>\<open>..\<close> are worked off, symbolic links are
  followed, and names that do not exist are kept as they stand.
\<close>

fun resolve :: "filesystem \<Rightarrow> nat \<Rightarrow> location \<Rightarrow> string list \<Rightarrow> location option" where
  "resolve fs fuel cur [] = Some cur"
| "resolve fs fuel cur (c # cs) =
     (if c = [] \<or> c = ''.'' then resolve fs fuel cur cs
      else if c = ''..'' then resolve fs fuel (butlast cur) cs
      else (case lookup fs (cur @ [c]) of
              Some (Symlink t) \<Rightarrow>
                (case fuel of
                   0 \<Rightarrow> None
                 | Suc k \<Rightarrow> resolve fs k (link_start cur t) (split_path t @ cs))
            | _ \<Rightarrow> resolve fs fuel (cur @ [c]) cs))"

definition sandbox_root :: location where
  "sandbox_root = [''data'']"

text \<open>A path that resolves to a location below the sandbox root, the root itself excluded.\<close>

definition strictly_inside :: "filesystem \<Rightarrow> string \<Rightarrow> bool" where
  "strictly_inside fs path =
     (case resolve fs max_symlinks [] (split_path path) of
        None \<Rightarrow> False
      | Some loc \<Rightarrow> strict_prefix sandbox_root loc)"

section \<open>The world an operation runs in\<close>

text \<open>
  The filesystem, and the calls made so far to anything outside the process: the
  network, a subprocess, a database engine, a model or codec library.
\<close>

datatype effect =
    HttpGet string
  | Subprocess "string list"
  | DbConnect string
  | DbExecute string
  | ImageOpen string
  | ImageSave string
  | LoadModel string
  | Transcribe string
  | ReadCsv string

record world =
  files :: filesystem
  effects :: "effect list"

definition log_effect :: "effect \<Rightarrow> world \<Rightarrow> world" where
  "log_effect e w = w\<lparr>effects := effects w @ [e]\<rparr>"

section \<open>The security check\<close>

text \<open>
  \<^verbatim>\<open>enforce_security(filepath, allow_deletion=False)\<close>, lines 15 to 21: the string must
  start with \<^verbatim>\<open>/data\<close>, and unless \<open>allow_deletion\<close> holds nothing may exist at it. The
  check returns the world it was given: it only reads.
\<close>

definition enforce_security :: "string \<Rightarrow> bool \<Rightarrow> world \<Rightarrow> (error + bool) \<times> world" where
  "enforce_security filepath allow_deletion w =
     (if \<not> startswith filepath ''/data'' then
        (Inl (PermissionError (''Access outside /data is not allowed: '' @ filepath)), w)
      else if \<not> allow_deletion \<and> os_path_exists (files w) filepath then
        (Inl (PermissionError
               (''Deletion/modification of existing files is not allowed: '' @ filepath)), w)
      else (Inr True, w))"

section \<open>Collaborators\<close>

text \<open>
  What the operations call and the file does not define: the HTTP client, the process
  runner, the two database engines and the codec, model, renderer and table libraries.
  Each is a function the operations are given; a collaborator that works on files gets
  the filesystem and, where it writes, returns the new one.
\<close>

record response =
  status_code :: int
  content_type :: "string option"
  body_text :: string
  body_json :: "json option"

text \<open>
  \<open>content_type\<close> is the \<^verbatim>\<open>Content-Type\<close> header when the response has one, \<open>body_json\<close>
  what \<^verbatim>\<open>response.json()\<close> returns (\<open>None\<close> when it raises on a body that is not JSON).
\<close>

datatype engine = Sqlite | Duckdb

record query_result =
  description :: "string list option"
  fetched :: "json list list"

record table =
  columns :: "string list"
  records :: "(string \<times> json) list list"

text \<open>A table read by pandas: its column labels, and its rows as \<^verbatim>\<open>to_dict(orient='records')\<close> gives them.\<close>

record env =
  http_get :: "string \<Rightarrow> error + response"
  run_process :: "string list \<Rightarrow> filesystem \<Rightarrow> int \<times> filesystem"
  db_connect :: "engine \<Rightarrow> string \<Rightarrow> filesystem \<Rightarrow> error + filesystem"
  db_execute :: "engine \<Rightarrow> string \<Rightarrow> string \<Rightarrow> filesystem \<Rightarrow> (error + query_result) \<times> filesystem"
  html_get_text :: "string \<Rightarrow> string"
  image_decode :: "string \<Rightarrow> error + string"
  image_resize :: "string \<Rightarrow> int \<times> int \<Rightarrow> error + string"
  image_save :: "string \<Rightarrow> string \<Rightarrow> filesystem \<Rightarrow> error + filesystem"
  load_model :: "string \<Rightarrow> error + unit"
  model_transcribe :: "string \<Rightarrow> error + string"
  markdown_render :: "string \<Rightarrow> string"
  parse_csv :: "string \<Rightarrow> error + table"
  select_rows :: "table \<Rightarrow> string \<Rightarrow> json \<Rightarrow> error + (string \<times> json) list list"

section \<open>Sequencing\<close>

text \<open>A statement that raises ends the function; the world stays as the statement left it.\<close>

definition and_then ::
  "(error + 'a) \<times> world \<Rightarrow> ('a \<Rightarrow> world \<Rightarrow> (error + 'b) \<times> world) \<Rightarrow> (error + 'b) \<times> world" where
  "and_then r f = (case r of (Inl e, w) \<Rightarrow> (Inl e, w) | (Inr x, w) \<Rightarrow> f x w)"

text \<open>\<^verbatim>\<open>except Exception as e: raise RuntimeError(f"{msg}{str(e)}")\<close>.\<close>

definition reraise :: "string \<Rightarrow> (error + 'a) \<times> world \<Rightarrow> (error + 'a) \<times> world" where
  "reraise msg r = (case r of (Inl e, w) \<Rightarrow> (Inl (RuntimeError msg (Some e)), w) | (Inr x, w) \<Rightarrow> (Inr x, w))"

text \<open>\<^verbatim>\<open>with open(path, 'w') as file: file.write(s)\<close>.\<close>

definition write_text :: "string \<Rightarrow> string \<Rightarrow> world \<Rightarrow> (error + unit) \<times> world" where
  "write_text path s w =
     (case open_w (files w) path of
        Inl e \<Rightarrow> (Inl e, w)
      | Inr (file, fs) \<Rightarrow> (Inr (), w\<lparr>files := file_write fs file s\<rparr>))"

text \<open>A read of a file by the builtin \<^verbatim>\<open>open\<close> or by a library that is handed the path.\<close>

definition read_text :: "string \<Rightarrow> world \<Rightarrow> (error + string) \<times> world" where
  "read_text path w = (read_file (files w) path, w)"

section \<open>The operations\<close>

subsection \<open>B3: fetch data from an API\<close>

text \<open>Line 31: the parsed body when the content type names JSON, the text otherwise.\<close>

definition response_data :: "response \<Rightarrow> error + json" where
  "response_data r =
     (if str_contains ''application/json'' (case content_type r of None \<Rightarrow> [] | Some v \<Rightarrow> v)
      then (case body_json r of None \<Rightarrow> Inl JSONDecodeError | Some j \<Rightarrow> Inr j)
      else Inr (JStr (body_text r)))"

text \<open>
  Lines 32 and 33: the file is opened, then a \<^verbatim>\<open>dict\<close> is dumped with \<^verbatim>\<open>indent=4\<close> and
  anything else is handed to \<^verbatim>\<open>file.write\<close>, which takes a \<^verbatim>\<open>str\<close> only.
\<close>

fun isinstance_dict :: "json \<Rightarrow> bool" where
  "isinstance_dict (JObj kvs) = True"
| "isinstance_dict v = False"

definition save_data :: "string \<Rightarrow> json \<Rightarrow> world \<Rightarrow> (error + unit) \<times> world" where
  "save_data save_path data w =
     (case open_w (files w) save_path of
        Inl e \<Rightarrow> (Inl e, w)
      | Inr (file, fs) \<Rightarrow>
          if isinstance_dict data then
            (Inr (), w\<lparr>files := file_write fs file (json_dump_indent4 data)\<rparr>)
          else (case data of
                  JStr s \<Rightarrow> (Inr (), w\<lparr>files := file_write fs file s\<rparr>)
                | _ \<Rightarrow> (Inl TypeError, w\<lparr>files := fs\<rparr>)))"

text \<open>Lines 27 to 33.\<close>

definition fetch_and_save_data_body :: "env \<Rightarrow> string \<Rightarrow> string \<Rightarrow> world \<Rightarrow> (error + unit) \<times> world" where
  "fetch_and_save_data_body env url save_path w =
     (let w1 = log_effect (HttpGet url) w in
      case http_get env url of
        Inl e \<Rightarrow> (Inl e, w1)
      | Inr r \<Rightarrow>
          if status_code r \<noteq> 200 then
            (Inl (RuntimeError (''Failed to fetch data. HTTP '' @ str_int (status_code r)
                                @ '': '' @ body_text r) None), w1)
          else (case response_data r of
                  Inl e \<Rightarrow> (Inl e, w1)
                | Inr data \<Rightarrow> save_data save_path data w1))"

definition fetch_and_save_data :: "env \<Rightarrow> string \<Rightarrow> string \<Rightarrow> world \<Rightarrow> (error + unit) \<times> world" where
  "fetch_and_save_data env url save_path w =
     and_then (enforce_security save_path False w)
       (\<lambda>ok. fetch_and_save_data_body env url save_path)"

subsection \<open>B4: clone a git repository and make a commit\<close>

text \<open>\<^verbatim>\<open>subprocess.run(args, check=True)\<close>.\<close>

definition subprocess_run :: "env \<Rightarrow> string list \<Rightarrow> world \<Rightarrow> (error + unit) \<times> world" where
  "subprocess_run env args w =
     (let w1 = log_effect (Subprocess args) w;
          (returncode, fs) = run_process env args (files w1)
      in if returncode \<noteq> 0 then (Inl (CalledProcessError args returncode), w1\<lparr>files := fs\<rparr>)
         else (Inr (), w1\<lparr>files := fs\<rparr>))"

definition repo_path :: string where
  "repo_path = ''/data/repo''"

text \<open>Lines 40 to 44.\<close>

definition clone_git_repo_body :: "env \<Rightarrow> string \<Rightarrow> string \<Rightarrow> world \<Rightarrow> (error + unit) \<times> world" where
  "clone_git_repo_body env repo_url commit_message w =
     and_then
       (if \<not> os_path_exists (files w) repo_path
        then subprocess_run env [''git'', ''clone'', repo_url, repo_path] w
        else (Inr (), w))
       (\<lambda>cloned w1.
          and_then (subprocess_run env [''git'', ''-C'', repo_path, ''add'', ''.''] w1)
            (\<lambda>added. subprocess_run env [''git'', ''-C'', repo_path, ''commit'', ''-m'', commit_message]))"

definition clone_git_repo :: "env \<Rightarrow> string \<Rightarrow> string \<Rightarrow> world \<Rightarrow> (error + unit) \<times> world" where
  "clone_git_repo env repo_url commit_message w =
     and_then (enforce_security repo_path False w)
       (\<lambda>ok. clone_git_repo_body env repo_url commit_message)"

subsection \<open>B5: execute a SQL query and save the results\<close>

text \<open>\<^verbatim>\<open>dict(zip(columns, row))\<close>: a repeated column keeps its first place and its last value.\<close>

definition dict_zip :: "string list \<Rightarrow> json list \<Rightarrow> (string \<times> json) list" where
  "dict_zip ks vs = foldl (\<lambda>d kv. AList.update (fst kv) (snd kv) d) [] (zip ks vs)"

definition engine_of :: "string \<Rightarrow> engine" where
  "engine_of db_path = (if endswith db_path ''.db'' then Sqlite else Duckdb)"

text \<open>
  Lines 54 to 62: the query runs, its rows become dictionaries, any exception is raised
  again as a \<^verbatim>\<open>RuntimeError\<close>, and the connection is closed either way (\<open>db_execute\<close>
  returns the filesystem after the close).
\<close>

definition run_query :: "env \<Rightarrow> string \<Rightarrow> string \<Rightarrow> world \<Rightarrow> (error + json) \<times> world" where
  "run_query env db_path query w =
     (let w1 = log_effect (DbExecute query) w;
          (r, fs) = db_execute env (engine_of db_path) db_path query (files w1)
      in reraise ''SQL execution failed: ''
           (case r of
              Inl e \<Rightarrow> (Inl e, w1\<lparr>files := fs\<rparr>)
            | Inr res \<Rightarrow>
                (Inr (JArr (map (\<lambda>row. JObj (dict_zip (case description res of None \<Rightarrow> [] | Some cols \<Rightarrow> cols) row))
                              (fetched res))),
                 w1\<lparr>files := fs\<rparr>)))"

text \<open>Lines 51 to 65.\<close>

definition execute_sql_query_body ::
  "env \<Rightarrow> string \<Rightarrow> string \<Rightarrow> string \<Rightarrow> world \<Rightarrow> (error + unit) \<times> world" where
  "execute_sql_query_body env db_path query output_filename w =
     (let w1 = log_effect (DbConnect db_path) w in
      case db_connect env (engine_of db_path) db_path (files w1) of
        Inl e \<Rightarrow> (Inl e, w1)
      | Inr fs \<Rightarrow>
          and_then (run_query env db_path query (w1\<lparr>files := fs\<rparr>))
            (\<lambda>output_data. write_text output_filename (json_dump_indent4 output_data)))"

definition execute_sql_query ::
  "env \<Rightarrow> string \<Rightarrow> string \<Rightarrow> string \<Rightarrow> world \<Rightarrow> (error + unit) \<times> world" where
  "execute_sql_query env db_path query output_filename w =
     and_then (enforce_security db_path False w)
       (\<lambda>ok w1. and_then (enforce_security output_filename False w1)
          (\<lambda>ok. execute_sql_query_body env db_path query output_filename))"

subsection \<open>B6: web scraping\<close>

text \<open>Lines 71 to 79.\<close>

definition scrape_website_body :: "env \<Rightarrow> string \<Rightarrow> string \<Rightarrow> world \<Rightarrow> (error + unit) \<times> world" where
  "scrape_website_body env url output_filename w =
     (let w1 = log_effect (HttpGet url) w in
      case http_get env url of
        Inl e \<Rightarrow> (Inl e, w1)
      | Inr r \<Rightarrow>
          if status_code r \<noteq> 200 then
            (Inl (RuntimeError (''Failed to scrape data. HTTP '' @ str_int (status_code r)) None), w1)
          else write_text output_filename (html_get_text env (body_text r)) w1)"

definition scrape_website :: "env \<Rightarrow> string \<Rightarrow> string \<Rightarrow> world \<Rightarrow> (error + unit) \<times> world" where
  "scrape_website env url output_filename w =
     and_then (enforce_security output_filename False w)
       (\<lambda>ok. scrape_website_body env url output_filename)"

subsection \<open>B7: image processing\<close>

text \<open>
  Lines 86 to 92. \<open>resize\<close> is \<open>None\<close> for the default \<^verbatim>\<open>resize=None\<close> and the pair of
  sizes otherwise.
\<close>

definition process_image_body ::
  "env \<Rightarrow> string \<Rightarrow> string \<Rightarrow> (int \<times> int) option \<Rightarrow> world \<Rightarrow> (error + unit) \<times> world" where
  "process_image_body env image_path output_path resize w =
     reraise ''Image processing failed: ''
       (and_then (read_text image_path (log_effect (ImageOpen image_path) w))
          (\<lambda>bytes w1.
             case image_decode env bytes of
               Inl e \<Rightarrow> (Inl e, w1)
             | Inr img \<Rightarrow>
                 (case (case resize of None \<Rightarrow> Inr img | Some dims \<Rightarrow> image_resize env img dims) of
                    Inl e \<Rightarrow> (Inl e, w1)
                  | Inr img2 \<Rightarrow>
                      (let w2 = log_effect (ImageSave output_path) w1 in
                       case image_save env img2 output_path (files w2) of
                         Inl e \<Rightarrow> (Inl e, w2)
                       | Inr fs \<Rightarrow> (Inr (), w2\<lparr>files := fs\<rparr>)))))"

definition process_image ::
  "env \<Rightarrow> string \<Rightarrow> string \<Rightarrow> (int \<times> int) option \<Rightarrow> world \<Rightarrow> (error + unit) \<times> world" where
  "process_image env image_path output_path resize w =
     and_then (enforce_security image_path False w)
       (\<lambda>ok w1. and_then (enforce_security output_path False w1)
          (\<lambda>ok. process_image_body env image_path output_path resize))"

subsection \<open>B8: audio transcription\<close>

text \<open>Lines 99 to 103.\<close>

definition transcribe_audio_body :: "env \<Rightarrow> string \<Rightarrow> string \<Rightarrow> world \<Rightarrow> (error + unit) \<times> world" where
  "transcribe_audio_body env audio_path output_path w =
     (let w1 = log_effect (LoadModel ''small'') w in
      case load_model env ''small'' of
        Inl e \<Rightarrow> (Inl e, w1)
      | Inr model \<Rightarrow>
          and_then (read_text audio_path (log_effect (Transcribe audio_path) w1))
            (\<lambda>bytes w2.
               case model_transcribe env bytes of
                 Inl e \<Rightarrow> (Inl e, w2)
               | Inr result_text \<Rightarrow> write_text output_path result_text w2))"

definition transcribe_audio :: "env \<Rightarrow> string \<Rightarrow> string \<Rightarrow> world \<Rightarrow> (error + unit) \<times> world" where
  "transcribe_audio env audio_path output_path w =
     and_then (enforce_security audio_path False w)
       (\<lambda>ok w1. and_then (enforce_security output_path False w1)
          (\<lambda>ok. transcribe_audio_body env audio_path output_path))"

subsection \<open>B9: Markdown to HTML\<close>

text \<open>Lines 110 to 116.\<close>

definition convert_md_to_html_body :: "env \<Rightarrow> string \<Rightarrow> string \<Rightarrow> world \<Rightarrow> (error + unit) \<times> world" where
  "convert_md_to_html_body env md_path output_path w =
     reraise ''Markdown conversion failed: ''
       (and_then (read_text md_path w)
          (\<lambda>md. write_text output_path (markdown_render env md)))"

definition convert_md_to_html :: "env \<Rightarrow> string \<Rightarrow> string \<Rightarrow> world \<Rightarrow> (error + unit) \<times> world" where
  "convert_md_to_html env md_path output_path w =
     and_then (enforce_security md_path False w)
       (\<lambda>ok w1. and_then (enforce_security output_path False w1)
          (\<lambda>ok. convert_md_to_html_body env md_path output_path))"

subsection \<open>B10: the endpoint that filters a CSV file\<close>

text \<open>
  What the view function returns: a JSON body and a status (200 when the \<^verbatim>\<open>return\<close>
  names none). \<open>ColumnMissing c\<close> is \<^verbatim>\<open>{"error": f"Column '{c}' does not exist"}\<close>,
  \<open>ExceptionText e\<close> is \<^verbatim>\<open>{"error": str(e)}\<close>, \<open>Rows v\<close> the filtered records.
\<close>

datatype reply = ColumnMissing json | ExceptionText error | Rows json | ServerErrorPage

text \<open>\<^verbatim>\<open>data.get(key)\<close> on the request's JSON: only a \<^verbatim>\<open>dict\<close> has \<^verbatim>\<open>get\<close>.\<close>

definition data_get :: "json \<Rightarrow> string \<Rightarrow> error + json" where
  "data_get data key =
     (case data of
        JObj kvs \<Rightarrow> (case map_of kvs key of None \<Rightarrow> Inr JNull | Some v \<Rightarrow> Inr v)
      | _ \<Rightarrow> Inl AttributeError)"

text \<open>
  Lines 129 to 134, inside the \<^verbatim>\<open>try\<close>. A column is a string; a list or a dictionary
  cannot be looked up among the columns (\<^verbatim>\<open>TypeError\<close>: unhashable). \<open>select_rows\<close> is
  \<^verbatim>\<open>df[df[filter_column] == filter_value].to_dict(orient='records')\<close>.
\<close>

definition filter_table :: "env \<Rightarrow> table \<Rightarrow> json \<Rightarrow> json \<Rightarrow> error + reply \<times> int" where
  "filter_table env df filter_column filter_value =
     (case filter_column of
        JArr xs \<Rightarrow> Inl TypeError
      | JObj kvs \<Rightarrow> Inl TypeError
      | JStr c \<Rightarrow>
          if c \<notin> set (columns df) then Inr (ColumnMissing filter_column, 400)
          else (case select_rows env df c filter_value of
                  Inl e \<Rightarrow> Inl e
                | Inr rows \<Rightarrow> Inr (Rows (JArr (map JObj rows)), 200))
      | _ \<Rightarrow> Inr (ColumnMissing filter_column, 400))"

text \<open>\<^verbatim>\<open>pd.read_csv(csv_path)\<close>: the file is read and parsed.\<close>

definition read_csv :: "env \<Rightarrow> string \<Rightarrow> world \<Rightarrow> (error + table) \<times> world" where
  "read_csv env csv_path w =
     and_then (read_text csv_path (log_effect (ReadCsv csv_path) w))
       (\<lambda>content w1. (parse_csv env content, w1))"

text \<open>Lines 128 to 136: whatever is raised inside the \<^verbatim>\<open>try\<close> is answered with status 500.\<close>

definition filter_csv_body :: "env \<Rightarrow> string \<Rightarrow> json \<Rightarrow> json \<Rightarrow> world \<Rightarrow> (error + reply \<times> int) \<times> world" where
  "filter_csv_body env csv_path filter_column filter_value w =
     (case and_then (read_csv env csv_path w)
             (\<lambda>df w1. (filter_table env df filter_column filter_value, w1)) of
        (Inl e, w1) \<Rightarrow> (Inr (ExceptionText e, 500), w1)
      | (Inr answer, w1) \<Rightarrow> (Inr answer, w1))"

text \<open>
  Lines 122 to 136. \<^verbatim>\<open>enforce_security(csv_path)\<close> stands before the \<^verbatim>\<open>try\<close>; a
  \<open>csv_path\<close> that is not a string has no \<^verbatim>\<open>startswith\<close>.
\<close>

definition filter_csv :: "env \<Rightarrow> json \<Rightarrow> world \<Rightarrow> (error + reply \<times> int) \<times> world" where
  "filter_csv env data w =
     (case data_get data ''csv_path'' of
        Inl e \<Rightarrow> (Inl e, w)
      | Inr csv_path \<Rightarrow>
          (case data_get data ''filter_column'' of
             Inl e \<Rightarrow> (Inl e, w)
           | Inr filter_column \<Rightarrow>
               (case data_get data ''filter_value'' of
                  Inl e \<Rightarrow> (Inl e, w)
                | Inr filter_value \<Rightarrow>
                    (case csv_path of
                       JStr p \<Rightarrow>
                         and_then (enforce_security p False w)
                           (\<lambda>ok. filter_csv_body env p filter_column filter_value)
                     | _ \<Rightarrow> (Inl AttributeError, w)))))"

text \<open>
  The web framework around the view function: an exception that leaves it is answered
  with the framework's page for an internal server error, status 500.
\<close>

definition http_answer :: "error + reply \<times> int \<Rightarrow> reply \<times> int" where
  "http_answer r = (case r of Inl e \<Rightarrow> (ServerErrorPage, 500) | Inr answer \<Rightarrow> answer)"

definition client_error :: "int \<Rightarrow> bool" where
  "client_error status = (400 \<le> status \<and> status < 500)"

definition server_error :: "int \<Rightarrow> bool" where
  "server_error status = (500 \<le> status \<and> status < 600)"

section \<open>Calling an operation\<close>

datatype operation =
    FetchAndSave string string
  | CloneGitRepo string string
  | ExecuteSql string string string
  | Scrape string string
  | ProcessImage string string "(int \<times> int) option"
  | TranscribeAudio string string
  | ConvertMd string string
  | FilterCsv json

datatype outcome = Returned | Answered reply int

definition returned :: "(error + unit) \<times> world \<Rightarrow> (error + outcome) \<times> world" where
  "returned r = (case r of (Inl e, w) \<Rightarrow> (Inl e, w) | (Inr u, w) \<Rightarrow> (Inr Returned, w))"

definition answered :: "(error + reply \<times> int) \<times> world \<Rightarrow> (error + outcome) \<times> world" where
  "answered r =
     (case r of (Inl e, w) \<Rightarrow> (Inl e, w) | (Inr (body, status), w) \<Rightarrow> (Inr (Answered body status), w))"

fun invoke :: "env \<Rightarrow> operation \<Rightarrow> world \<Rightarrow> (error + outcome) \<times> world" where
  "invoke env (FetchAndSave url save_path) w = returned (fetch_and_save_data env url save_path w)"
| "invoke env (CloneGitRepo repo_url commit_message) w =
     returned (clone_git_repo env repo_url commit_message w)"
| "invoke env (ExecuteSql db_path query output_filename) w =
     returned (execute_sql_query env db_path query output_filename w)"
| "invoke env (Scrape url output_filename) w = returned (scrape_website env url output_filename w)"
| "invoke env (ProcessImage image_path output_path resize) w =
     returned (process_image env image_path output_path resize w)"
| "invoke env (TranscribeAudio audio_path output_path) w =
     returned (transcribe_audio env audio_path output_path w)"
| "invoke env (ConvertMd md_path output_path) w =
     returned (convert_md_to_html env md_path output_path w)"
| "invoke env (FilterCsv data) w = answered (filter_csv env data w)"

text \<open>
  The calls of \<^verbatim>\<open>enforce_security\<close> an operation makes, in the order of the source, each
  with the path and the \<open>allow_deletion\<close> it passes. No call names \<open>allow_deletion\<close>, so
  each passes the default \<^verbatim>\<open>False\<close>.
\<close>

fun security_calls :: "operation \<Rightarrow> (string \<times> bool) list" where
  "security_calls (FetchAndSave url save_path) = [(save_path, False)]"
| "security_calls (CloneGitRepo repo_url commit_message) = [(repo_path, False)]"
| "security_calls (ExecuteSql db_path query output_filename) =
     [(db_path, False), (output_filename, False)]"
| "security_calls (Scrape url output_filename) = [(output_filename, False)]"
| "security_calls (ProcessImage image_path output_path resize) =
     [(image_path, False), (output_path, False)]"
| "security_calls (TranscribeAudio audio_path output_path) =
     [(audio_path, False), (output_path, False)]"
| "security_calls (ConvertMd md_path output_path) = [(md_path, False), (output_path, False)]"
| "security_calls (FilterCsv data) =
     (case data_get data ''csv_path'' of Inr (JStr p) \<Rightarrow> [(p, False)] | _ \<Rightarrow> [])"

definition checked_paths :: "operation \<Rightarrow> string list" where
  "checked_paths op = map fst (security_calls op)"

text \<open>Whether the check lets a path through, in a world.\<close>

definition permits :: "string \<Rightarrow> bool \<Rightarrow> world \<Rightarrow> bool" where
  "permits filepath allow_deletion w = (fst (enforce_security filepath allow_deletion w) = Inr True)"

text \<open>The checks of a list of calls, one after the other, stopping at the first that raises.\<close>

fun run_checks :: "(string \<times> bool) list \<Rightarrow> world \<Rightarrow> (error + unit) \<times> world" where
  "run_checks [] w = (Inr (), w)"
| "run_checks (c # cs) w = and_then (enforce_security (fst c) (snd c) w) (\<lambda>ok. run_checks cs)"

text \<open>What an operation does after its calls of \<^verbatim>\<open>enforce_security\<close>.\<close>

fun body :: "env \<Rightarrow> operation \<Rightarrow> world \<Rightarrow> (error + outcome) \<times> world" where
  "body env (FetchAndSave url save_path) w = returned (fetch_and_save_data_body env url save_path w)"
| "body env (CloneGitRepo repo_url commit_message) w =
     returned (clone_git_repo_body env repo_url commit_message w)"
| "body env (ExecuteSql db_path query output_filename) w =
     returned (execute_sql_query_body env db_path query output_filename w)"
| "body env (Scrape url output_filename) w = returned (scrape_website_body env url output_filename w)"
| "body env (ProcessImage image_path output_path resize) w =
     returned (process_image_body env image_path output_path resize w)"
| "body env (TranscribeAudio audio_path output_path) w =
     returned (transcribe_audio_body env audio_path output_path w)"
| "body env (ConvertMd md_path output_path) w =
     returned (convert_md_to_html_body env md_path output_path w)"
| "body env (FilterCsv data) w =
     (case data of
        JObj kvs \<Rightarrow>
          (case map_of kvs ''csv_path'' of
             Some (JStr p) \<Rightarrow>
               answered (filter_csv_body env p
                 (case map_of kvs ''filter_column'' of None \<Rightarrow> JNull | Some v \<Rightarrow> v)
                 (case map_of kvs ''filter_value'' of None \<Rightarrow> JNull | Some v \<Rightarrow> v) w)
           | _ \<Rightarrow> (Inl AttributeError, w))
      | _ \<Rightarrow> (Inl AttributeError, w))"

section \<open>Worlds and collaborators for the examples\<close>

text \<open>
  A machine with the sandbox \<^verbatim>\<open>/data\<close> beside \<^verbatim>\<open>/etc\<close> and \<^verbatim>\<open>/database\<close>. In the sandbox: a
  database file, a cloned repository, and a symbolic link that leads out to \<^verbatim>\<open>/etc\<close>.
\<close>

definition machine_fs :: filesystem where
  "machine_fs =
     (\<lambda>loc. None)
       ([''data''] \<mapsto> Dir,
        [''etc''] \<mapsto> Dir,
        [''database''] \<mapsto> Dir,
        [''etc'', ''passwd''] \<mapsto> File ''root:x:0:0'',
        [''data'', ''in.db''] \<mapsto> File ''SQLite format 3'',
        [''data'', ''repo''] \<mapsto> Dir,
        [''data'', ''link''] \<mapsto> Symlink ''/etc'')"

definition machine :: world where
  "machine = \<lparr>files = machine_fs, effects = []\<rparr>"

text \<open>An HTTP server that answers every request with status 200 and a JSON body.\<close>

definition json_response :: "string \<Rightarrow> json \<Rightarrow> response" where
  "json_response raw v =
     \<lparr>status_code = 200, content_type = Some ''application/json'', body_text = raw,
      body_json = Some v\<rparr>"

text \<open>Collaborators other than the HTTP client: each reports a failure.\<close>

definition offline :: "(string \<Rightarrow> error + response) \<Rightarrow> env" where
  "offline http =
     \<lparr>http_get = http,
      run_process = (\<lambda>args fs. (1, fs)),
      db_connect = (\<lambda>e path fs. Inl (LibraryError ''unable to open database file'')),
      db_execute = (\<lambda>e path q fs. (Inl (LibraryError ''no such table''), fs)),
      html_get_text = (\<lambda>html. html),
      image_decode = (\<lambda>bytes. Inl (LibraryError ''cannot identify image file'')),
      image_resize = (\<lambda>img dims. Inr img),
      image_save = (\<lambda>img path fs. Inl (LibraryError ''unknown file extension'')),
      load_model = (\<lambda>name. Inl (LibraryError ''model not found'')),
      model_transcribe = (\<lambda>bytes. Inl (LibraryError ''failed to load audio'')),
      markdown_render = (\<lambda>md. md),
      parse_csv = (\<lambda>content. Inl (LibraryError ''no columns to parse from file'')),
      select_rows = (\<lambda>df c v. Inr (filter (\<lambda>row. map_of row c = Some v) (records df)))\<rparr>"

definition object_server :: env where
  "object_server = offline (\<lambda>url. Inr (json_response ''{\"a\":1}'' (JObj [(''a'', JInt 1)])))"

text \<open>The same object, sent without a content type that names JSON.\<close>

definition plain_server :: env where
  "plain_server =
     offline (\<lambda>url. Inr \<lparr>status_code = 200, content_type = Some ''text/plain'',
                             body_text = ''{\"a\":1}'', body_json = Some (JObj [(''a'', JInt 1)])\<rparr>)"



section \<open>The check reads and decides\<close>

lemma enforce_security_permits:
  "permits p a w \<Longrightarrow> enforce_security p a w = (Inr True, w)"
  by (simp add: permits_def enforce_security_def split: if_splits)

lemma enforce_security_denies:
  "\<not> permits p a w \<Longrightarrow> \<exists>msg. enforce_security p a w = (Inl (PermissionError msg), w)"
  by (simp add: permits_def enforce_security_def split: if_splits)

text \<open>A list of checks with one that denies raises, and hands back the world untouched.\<close>

lemma run_checks_denied:
  "(p, a) \<in> set cs \<Longrightarrow> \<not> permits p a w \<Longrightarrow>
   \<exists>msg. run_checks cs w = (Inl (PermissionError msg), w)"
proof (induction cs)
  case Nil
  then show ?case by simp
next
  case (Cons c cs)
  show ?case
  proof (cases "permits (fst c) (snd c) w")
    case True
    with Cons.prems have "(p, a) \<in> set cs" by auto
    with Cons have "\<exists>msg. run_checks cs w = (Inl (PermissionError msg), w)" by simp
    with True show ?thesis by (simp add: enforce_security_permits and_then_def)
  next
    case False
    then obtain msg where "enforce_security (fst c) (snd c) w = (Inl (PermissionError msg), w)"
      using enforce_security_denies by blast
    then show ?thesis by (simp add: and_then_def)
  qed
qed

text \<open>Every operation is its security calls, in order, and then its body.\<close>

lemma invoke_checks_then_body:
  "invoke env op w = and_then (run_checks (security_calls op) w) (\<lambda>u. body env op)"
proof (cases op)
  case (FilterCsv data)
  then show ?thesis
    by (auto simp add: filter_csv_def data_get_def and_then_def answered_def
        split: json.splits option.splits prod.splits sum.splits)
qed (auto simp add: fetch_and_save_data_def clone_git_repo_def execute_sql_query_def
     scrape_website_def process_image_def transcribe_audio_def convert_md_to_html_def
     and_then_def returned_def split: prod.splits sum.splits)

lemma security_calls_default: "(p, a) \<in> set (security_calls op) \<Longrightarrow> a = False"
  by (cases op) (auto split: sum.splits json.splits)

subsection \<open>The example machine\<close>

lemma utf8_length_simps [simp]:
  "utf8_length [] = 0"
  "utf8_length (c # cs) = (if 128 \<le> (of_char c :: nat) then 2 else 1) + utf8_length cs"
  by (simp_all add: utf8_length_def)

lemmas fs_eval = os_path_exists_def stat_def path_error_def name_max_def path_max_def
  max_symlinks_def lookup_def link_start_def startswith_def machine_def machine_fs_def

lemma machine_in_db_exists: "os_path_exists (files machine) ''/data/in.db''"
  by (simp add: fs_eval)

lemma machine_repo_exists: "os_path_exists (files machine) ''/data/repo''"
  by (simp add: fs_eval)

lemma machine_new_json_missing: "\<not> os_path_exists (files machine) ''/data/new.json''"
  by (simp add: fs_eval)

section \<open>Claims about the security check\<close>

text \<open>
  Claim C8. The policy gate is deterministic and free of effects: the decision (permit,
  or deny with its reason) depends on the path, the flag and the state of the filesystem
  only, so two worlds with the same files get the same decision whatever else happened
  in them, and the check hands back the world it was given, filesystem included.
\<close>

theorem gate_deterministic_and_effect_free:
  "snd (enforce_security p a w) = w
   \<and> (files w' = files w \<longrightarrow> fst (enforce_security p a w') = fst (enforce_security p a w))"
  by (simp add: enforce_security_def)

theorem gate_deterministic_and_effect_free_witness:
  "files (log_effect (HttpGet ''http://x/ok'') machine) = files machine
   \<and> fst (enforce_security ''/data/in.db'' False (log_effect (HttpGet ''http://x/ok'') machine))
     = fst (enforce_security ''/data/in.db'' False machine)
   \<and> snd (enforce_security ''/data/in.db'' False machine) = machine"
  using gate_deterministic_and_effect_free
    [of "''/data/in.db''" False machine "log_effect (HttpGet ''http://x/ok'') machine"]
  by (simp add: log_effect_def)

text \<open>
  Claim C4, as the code has it. For every path that resolves strictly inside the
  sandbox root: when a file or a directory exists at it, the check for a new file
  (\<open>allow_deletion\<close> false) denies; when nothing exists at it and the path is given as a
  string that begins with \<^verbatim>\<open>/data\<close>, the check permits.
\<close>

theorem write_new_on_prefixed_paths:
  assumes "strictly_inside (files w) p"
  shows "(os_path_exists (files w) p \<longrightarrow>
            (\<exists>msg. enforce_security p False w = (Inl (PermissionError msg), w)))
       \<and> (startswith p ''/data'' \<and> \<not> os_path_exists (files w) p \<longrightarrow>
            enforce_security p False w = (Inr True, w))"
  by (simp add: enforce_security_def)

theorem write_new_on_prefixed_paths_witness:
  "strictly_inside (files machine) ''/data/new.json''
   \<and> startswith ''/data/new.json'' ''/data''
   \<and> \<not> os_path_exists (files machine) ''/data/new.json''
   \<and> enforce_security ''/data/new.json'' False machine = (Inr True, machine)
   \<and> strictly_inside (files machine) ''/data/in.db''
   \<and> os_path_exists (files machine) ''/data/in.db''
   \<and> (\<exists>msg. enforce_security ''/data/in.db'' False machine = (Inl (PermissionError msg), machine))
   \<and> strictly_inside (files machine) ''/data/repo''
   \<and> os_path_exists (files machine) ''/data/repo''
   \<and> (\<exists>msg. enforce_security ''/data/repo'' False machine = (Inl (PermissionError msg), machine))"
proof -
  have new: "strictly_inside (files machine) ''/data/new.json''"
    by (simp add: strictly_inside_def sandbox_root_def strict_prefix_def fs_eval)
  have db: "strictly_inside (files machine) ''/data/in.db''"
    by (simp add: strictly_inside_def sandbox_root_def strict_prefix_def fs_eval)
  have repo: "strictly_inside (files machine) ''/data/repo''"
    by (simp add: strictly_inside_def sandbox_root_def strict_prefix_def fs_eval)
  have pre: "startswith ''/data/new.json'' ''/data''"
    by (simp add: startswith_def)
  from write_new_on_prefixed_paths [OF new] pre machine_new_json_missing
  have a: "enforce_security ''/data/new.json'' False machine = (Inr True, machine)"
    by blast
  from write_new_on_prefixed_paths [OF db] machine_in_db_exists
  have b: "\<exists>msg. enforce_security ''/data/in.db'' False machine = (Inl (PermissionError msg), machine)"
    by blast
  from write_new_on_prefixed_paths [OF repo] machine_repo_exists
  have c: "\<exists>msg. enforce_security ''/data/repo'' False machine = (Inl (PermissionError msg), machine)"
    by blast
  from new db repo pre a b c machine_new_json_missing machine_in_db_exists machine_repo_exists
  show ?thesis by blast
qed

text \<open>
  Two spellings of a path in the sandbox at which nothing exists, one through \<^verbatim>\<open>.\<close> and
  one relative to the working directory: both resolve to \<^verbatim>\<open>/data/new.json\<close>, and both
  are denied as lying outside.
\<close>

theorem unprefixed_inside_path_is_denied:
  "strictly_inside (files machine) ''/./data/new.json''
   \<and> \<not> os_path_exists (files machine) ''/./data/new.json''
   \<and> enforce_security ''/./data/new.json'' False machine =
       (Inl (PermissionError ''Access outside /data is not allowed: /./data/new.json''), machine)
   \<and> strictly_inside (files machine) ''data/new.json''
   \<and> \<not> os_path_exists (files machine) ''data/new.json''
   \<and> enforce_security ''data/new.json'' False machine =
       (Inl (PermissionError ''Access outside /data is not allowed: data/new.json''), machine)"
  by (simp add: strictly_inside_def sandbox_root_def strict_prefix_def enforce_security_def fs_eval)

section \<open>Claims about the operations\<close>

text \<open>
  Claim C2. Every operation runs the check on each of its path parameters before its
  body begins, and when the check denies one of them the operation ends with the
  \<^verbatim>\<open>PermissionError\<close> in the world it started in: the body was not entered, no network
  call, subprocess or other collaborator was reached, and the filesystem is as it was.
\<close>

theorem checks_precede_effects:
  "invoke env op w = and_then (run_checks (security_calls op) w) (\<lambda>u. body env op)
   \<and> ((\<exists>c \<in> set (security_calls op). \<not> permits (fst c) (snd c) w) \<longrightarrow>
        (\<exists>msg. invoke env op w = (Inl (PermissionError msg), w)))"
proof (intro conjI impI)
  show "invoke env op w = and_then (run_checks (security_calls op) w) (\<lambda>u. body env op)"
    by (rule invoke_checks_then_body)
next
  assume "\<exists>c \<in> set (security_calls op). \<not> permits (fst c) (snd c) w"
  then obtain p a where "(p, a) \<in> set (security_calls op)" and "\<not> permits p a w"
    by auto
  then obtain msg where "run_checks (security_calls op) w = (Inl (PermissionError msg), w)"
    using run_checks_denied by blast
  then have "invoke env op w = (Inl (PermissionError msg), w)"
    by (simp add: invoke_checks_then_body and_then_def)
  then show "\<exists>msg. invoke env op w = (Inl (PermissionError msg), w)" ..
qed

theorem checks_precede_effects_witness:
  "(''/etc/out.json'', False)
     \<in> set (security_calls (ExecuteSql ''/data/new.db'' ''SELECT 1'' ''/etc/out.json''))
   \<and> \<not> permits ''/etc/out.json'' False machine
   \<and> (\<exists>msg. invoke object_server (ExecuteSql ''/data/new.db'' ''SELECT 1'' ''/etc/out.json'') machine
              = (Inl (PermissionError msg), machine))"
proof -
  have s: "(''/etc/out.json'', False)
             \<in> set (security_calls (ExecuteSql ''/data/new.db'' ''SELECT 1'' ''/etc/out.json''))"
    by simp
  have d: "\<not> permits ''/etc/out.json'' False machine"
    by (simp add: permits_def enforce_security_def startswith_def)
  from s d have "\<exists>c \<in> set (security_calls (ExecuteSql ''/data/new.db'' ''SELECT 1'' ''/etc/out.json'')).
             \<not> permits (fst c) (snd c) machine"
    by force
  with checks_precede_effects
      [of object_server "ExecuteSql ''/data/new.db'' ''SELECT 1'' ''/etc/out.json''" machine]
  have "\<exists>msg. invoke object_server (ExecuteSql ''/data/new.db'' ''SELECT 1'' ''/etc/out.json'') machine
              = (Inl (PermissionError msg), machine)"
    by blast
  with s d show ?thesis by blast
qed

text \<open>
  Claim C9. Every call of the check an operation makes leaves \<open>allow_deletion\<close> at its
  default \<^verbatim>\<open>False\<close>, and the operation is those calls followed by its body, so the branch
  for \<open>allow_deletion\<close> true is never taken. Hence for every operation and every path it
  checks, the paths it only reads included (\<open>image_path\<close>, \<open>audio_path\<close>, \<open>md_path\<close>,
  \<open>db_path\<close>, \<open>csv_path\<close>): when the path exists, the operation fails with
  \<^verbatim>\<open>PermissionError\<close> before any effect.
\<close>

theorem existing_path_stops_every_operation:
  "(\<forall>c \<in> set (security_calls op). snd c = False)
   \<and> invoke env op w = and_then (run_checks (security_calls op) w) (\<lambda>u. body env op)
   \<and> (\<forall>p \<in> set (checked_paths op). os_path_exists (files w) p \<longrightarrow>
        (\<exists>msg. invoke env op w = (Inl (PermissionError msg), w)))"
proof (intro conjI ballI impI)
  fix c assume "c \<in> set (security_calls op)"
  then show "snd c = False"
    using security_calls_default [of "fst c" "snd c" op] by simp
next
  show "invoke env op w = and_then (run_checks (security_calls op) w) (\<lambda>u. body env op)"
    by (rule invoke_checks_then_body)
next
  fix p assume p: "p \<in> set (checked_paths op)" and e: "os_path_exists (files w) p"
  from p obtain a where c: "(p, a) \<in> set (security_calls op)"
    by (auto simp add: checked_paths_def)
  then have "a = False"
    by (rule security_calls_default)
  with e have "\<not> permits p a w"
    by (simp add: permits_def enforce_security_def)
  with c obtain msg where "run_checks (security_calls op) w = (Inl (PermissionError msg), w)"
    using run_checks_denied by blast
  then have "invoke env op w = (Inl (PermissionError msg), w)"
    by (simp add: invoke_checks_then_body and_then_def)
  then show "\<exists>msg. invoke env op w = (Inl (PermissionError msg), w)" ..
qed

theorem existing_path_stops_every_operation_witness:
  "''/data/in.db'' \<in> set (checked_paths (ExecuteSql ''/data/in.db'' ''SELECT 1'' ''/data/out.json''))
   \<and> os_path_exists (files machine) ''/data/in.db''
   \<and> (\<exists>msg. invoke object_server (ExecuteSql ''/data/in.db'' ''SELECT 1'' ''/data/out.json'') machine
              = (Inl (PermissionError msg), machine))"
proof -
  have s: "''/data/in.db''
             \<in> set (checked_paths (ExecuteSql ''/data/in.db'' ''SELECT 1'' ''/data/out.json''))"
    by (simp add: checked_paths_def)
  with existing_path_stops_every_operation
    [of "ExecuteSql ''/data/in.db'' ''SELECT 1'' ''/data/out.json''" object_server machine]
    machine_in_db_exists
  have "\<exists>msg. invoke object_server (ExecuteSql ''/data/in.db'' ''SELECT 1'' ''/data/out.json'') machine
              = (Inl (PermissionError msg), machine)"
    by blast
  with s machine_in_db_exists show ?thesis by blast
qed

section \<open>Writing a file\<close>

text \<open>
  Where \<^verbatim>\<open>open(path, 'w')\<close> puts a file there was no directory and no symbolic link, and
  once the file is written the same path leads to it.
\<close>

lemma target_free:
  "target fs path fuel cur cs = Inr loc \<Longrightarrow>
   loc \<noteq> [] \<and> (fs loc = None \<or> (\<exists>x. fs loc = Some (File x)))"
proof (induction fs path fuel cur cs rule: target.induct)
  case (1 fs path fuel cur)
  then show ?case by simp
next
  case (2 fs path fuel cur c cs)
  then show ?case
    by (auto simp add: lookup_def split: if_splits option.splits node.splits nat.splits)
qed

lemma target_then_walk:
  assumes "target fs path fuel cur cs = Inr loc"
    and "fs' loc = Some (File s)"
    and "\<And>l. l \<noteq> loc \<Longrightarrow> fs' l = fs l"
  shows "walk fs' path fuel cur cs = Inr loc"
  using assms
proof (induction fs path fuel cur cs rule: target.induct)
  case (1 fs path fuel cur)
  then show ?case by simp
next
  case (2 fs path fuel cur c cs)
  from target_free [OF "2.prems"(1)]
  have free: "loc \<noteq> []" "fs loc = None \<or> (\<exists>x. fs loc = Some (File x))"
    by simp_all
  have same: "l \<noteq> loc \<Longrightarrow> lookup fs' l = lookup fs l" for l
    using "2.prems"(3) by (simp add: lookup_def)
  have here: "lookup fs' loc = Some (File s)"
    using "2.prems"(2) free(1) by (simp add: lookup_def)
  show ?case
  proof (cases "c = [] \<or> c = ''.''")
    case True
    with 2 show ?thesis by simp
  next
    case False
    note plain = this
    show ?thesis
    proof (cases "c = ''..''")
      case True
      with 2 plain show ?thesis by simp
    next
      case False
      note named = this
      have short: "\<not> name_max < utf8_length c"
        using "2.prems"(1) plain named by (auto split: if_splits)
      show ?thesis
      proof (cases "lookup fs (cur @ [c])")
        case None
        with "2.prems"(1) plain named short have "loc = cur @ [c]" "cs = []"
          by (simp_all split: if_splits)
        with here plain named short show ?thesis by simp
      next
        case (Some n)
        show ?thesis
        proof (cases n)
          case (File x)
          with "2.prems"(1) plain named short Some have "loc = cur @ [c]" "cs = []"
            by (simp_all split: if_splits)
          with here plain named short show ?thesis by simp
        next
          case Dir
          with Some free have ne: "cur @ [c] \<noteq> loc"
            by (auto simp add: lookup_def)
          from Dir Some "2.prems"(1) plain named short
          have "target fs path fuel (cur @ [c]) cs = Inr loc" by simp
          with "2.IH"(3) plain named short Some Dir "2.prems"(2,3)
          have "walk fs' path fuel (cur @ [c]) cs = Inr loc" by blast
          with plain named short Some Dir same [OF ne] show ?thesis
            by simp
        next
          case (Symlink t)
          with Some free have ne: "cur @ [c] \<noteq> loc"
            by (auto simp add: lookup_def)
          show ?thesis
          proof (cases fuel)
            case 0
            with "2.prems"(1) plain named short Some Symlink show ?thesis by simp
          next
            case (Suc k)
            with Symlink Some "2.prems"(1) plain named short
            have "target fs path k (link_start cur t) (split_path t @ cs) = Inr loc" by simp
            with "2.IH"(4) plain named short Some Symlink Suc "2.prems"(2,3)
            have "walk fs' path k (link_start cur t) (split_path t @ cs) = Inr loc"
              by blast
            with plain named short Some Symlink Suc same [OF ne] show ?thesis
              by simp
          qed
        qed
      qed
    qed
  qed
qed

lemma open_w_then_written:
  assumes "open_w fs path = Inr (file, fs1)"
  shows "read_file (file_write fs1 file s) path = Inr s"
    and "os_path_exists (file_write fs1 file s) path"
proof -
  from assms have ok: "path_error path = None"
    and t: "target fs path max_symlinks [] (split_path path) = Inr file"
    and fs1: "fs1 = fs(file \<mapsto> File [])"
    by (auto simp add: open_w_def split: option.splits sum.splits)
  from target_free [OF t] have nonroot: "file \<noteq> []" by simp
  have here: "file_write fs1 file s file = Some (File s)"
    by (simp add: file_write_def fs1)
  have same: "l \<noteq> file \<Longrightarrow> file_write fs1 file s l = fs l" for l
    by (simp add: file_write_def fs1)
  have "walk (file_write fs1 file s) path max_symlinks [] (split_path path) = Inr file"
    using t here same by (rule target_then_walk)
  with ok have w: "stat (file_write fs1 file s) path = Inr file"
    by (simp add: stat_def)
  from w show "os_path_exists (file_write fs1 file s) path"
    by (simp add: os_path_exists_def)
  from w here nonroot show "read_file (file_write fs1 file s) path = Inr s"
    by (simp add: read_file_def lookup_def)
qed


text \<open>
  The resolved form of a path is the location at which \<^verbatim>\<open>stat\<close> finds it and at which
  \<^verbatim>\<open>open\<close> creates it.
\<close>

lemma walk_resolve:
  "walk fs path fuel cur cs = Inr loc \<Longrightarrow> resolve fs fuel cur cs = Some loc"
proof (induction fs path fuel cur cs rule: walk.induct)
  case (1 fs path fuel cur)
  then show ?case by simp
next
  case (2 fs path fuel cur c cs)
  then show ?case
    by (auto split: if_splits option.splits node.splits nat.splits)
qed

lemma target_resolve:
  "target fs path fuel cur cs = Inr loc \<Longrightarrow> resolve fs fuel cur cs = Some loc"
proof (induction fs path fuel cur cs rule: target.induct)
  case (1 fs path fuel cur)
  then show ?case by simp
next
  case (2 fs path fuel cur c cs)
  then show ?case
    by (auto split: if_splits option.splits node.splits nat.splits)
qed

lemma replicate_four: "replicate 4 c = [c, c, c, c]"
  by (simp add: numeral_eq_Suc)

lemma dump_a1:
  "json_dump_indent4 (JObj [(''a'', JInt 1)]) =
     CHR ''{'' # CHR 0x0A # ''    \"a\": 1'' @ [CHR 0x0A, CHR ''}'']"
  by (simp add: json_dump_indent4_def newline_indent_def json_string_def escape_char_def
      str_int_def str_nat.simps digit_char_def replicate_four)

section \<open>Claims about fetching and saving\<close>

text \<open>
  Claim C6, as the code has it. Fetch-and-save with a \<open>save_path\<close> that resolves inside
  the sandbox, is given as a string that begins with \<^verbatim>\<open>/data\<close>, names nothing that
  exists yet and can be opened for writing, against a server that answers 200 with a
  \<^verbatim>\<open>Content-Type\<close> that contains \<^verbatim>\<open>application/json\<close> and the JSON object \<^verbatim>\<open>{"a":1}\<close>,
  succeeds and leaves the object at \<open>save_path\<close> printed with an indent of four; the
  same call again, the file now there, raises \<^verbatim>\<open>PermissionError\<close> and leaves the world,
  the file included, as it was.
\<close>

theorem fetch_and_save_pretty_then_refuse:
  assumes inside: "strictly_inside (files w) save_path"
    and prefixed: "startswith save_path ''/data''"
    and fresh: "\<not> os_path_exists (files w) save_path"
    and served: "http_get env url = Inr r" "status_code r = 200"
      "content_type r = Some ct" "str_contains ''application/json'' ct"
      "body_json r = Some (JObj [(''a'', JInt 1)])"
    and creatable: "open_w (files w) save_path = Inr (file, fs)"
  shows "\<exists>w1. fetch_and_save_data env url save_path w = (Inr (), w1)
          \<and> read_file (files w1) save_path = Inr (json_dump_indent4 (JObj [(''a'', JInt 1)]))
          \<and> json_dump_indent4 (JObj [(''a'', JInt 1)])
              = CHR ''{'' # CHR 0x0A # ''    \"a\": 1'' @ [CHR 0x0A, CHR ''}'']
          \<and> (\<exists>msg. fetch_and_save_data env url save_path w1 = (Inl (PermissionError msg), w1))"
proof -
  define w1 where
    "w1 = (log_effect (HttpGet url) w)
            \<lparr>files := file_write fs file (json_dump_indent4 (JObj [(''a'', JInt 1)]))\<rparr>"
  have gate: "enforce_security save_path False w = (Inr True, w)"
    using prefixed fresh by (simp add: enforce_security_def)
  have data: "response_data r = Inr (JObj [(''a'', JInt 1)])"
    using served by (simp add: response_data_def)
  have save: "save_data save_path (JObj [(''a'', JInt 1)]) (log_effect (HttpGet url) w) = (Inr (), w1)"
    using creatable by (simp add: save_data_def log_effect_def w1_def)
  have first: "fetch_and_save_data env url save_path w = (Inr (), w1)"
    using gate served data save
    by (simp add: fetch_and_save_data_def fetch_and_save_data_body_def and_then_def Let_def)
  have files1: "files w1 = file_write fs file (json_dump_indent4 (JObj [(''a'', JInt 1)]))"
    by (simp add: w1_def)
  have content: "read_file (files w1) save_path = Inr (json_dump_indent4 (JObj [(''a'', JInt 1)]))"
    unfolding files1 using creatable by (rule open_w_then_written(1))
  have "os_path_exists (files w1) save_path"
    unfolding files1 using creatable by (rule open_w_then_written(2))
  then have second: "\<exists>msg. fetch_and_save_data env url save_path w1 = (Inl (PermissionError msg), w1)"
    using prefixed by (simp add: fetch_and_save_data_def enforce_security_def and_then_def)
  from first content dump_a1 second show ?thesis by blast
qed

lemma machine_open_new_json:
  "open_w (files machine) ''/data/new.json'' =
     Inr ([''data'', ''new.json''], (files machine)([''data'', ''new.json''] \<mapsto> File []))"
  by (simp add: open_w_def fs_eval)

lemma machine_new_json_inside: "strictly_inside (files machine) ''/data/new.json''"
  by (simp add: strictly_inside_def sandbox_root_def strict_prefix_def fs_eval)

theorem fetch_and_save_pretty_then_refuse_witness:
  "\<exists>w1. fetch_and_save_data object_server ''http://x/ok'' ''/data/new.json'' machine = (Inr (), w1)
          \<and> read_file (files w1) ''/data/new.json'' = Inr (json_dump_indent4 (JObj [(''a'', JInt 1)]))
          \<and> json_dump_indent4 (JObj [(''a'', JInt 1)])
              = CHR ''{'' # CHR 0x0A # ''    \"a\": 1'' @ [CHR 0x0A, CHR ''}'']
          \<and> (\<exists>msg. fetch_and_save_data object_server ''http://x/ok'' ''/data/new.json'' w1
                      = (Inl (PermissionError msg), w1))"
  using fetch_and_save_pretty_then_refuse
    [of machine "''/data/new.json''" object_server "''http://x/ok''"
        "json_response ''{\"a\":1}'' (JObj [(''a'', JInt 1)])" "''application/json''"
        "[''data'', ''new.json'']" "(files machine)([''data'', ''new.json''] \<mapsto> File [])"]
    machine_new_json_inside machine_new_json_missing machine_open_new_json
  by (simp add: object_server_def offline_def json_response_def startswith_def)

text \<open>
  Three calls the claim covers and the code treats otherwise. The object sent as
  \<^verbatim>\<open>text/plain\<close> is saved as it came, not printed with an indent. A path in the sandbox
  spelled \<^verbatim>\<open>/./data/new.json\<close> is refused at the first call. A path in a directory that
  does not exist passes the check, and the call fails in \<^verbatim>\<open>open\<close>, after the request.
\<close>

theorem fetch_and_save_other_outcomes:
  "http_get plain_server ''http://x/ok'' =
     Inr \<lparr>status_code = 200, content_type = Some ''text/plain'', body_text = ''{\"a\":1}'',
          body_json = Some (JObj [(''a'', JInt 1)])\<rparr>
   \<and> fst (fetch_and_save_data plain_server ''http://x/ok'' ''/data/new.json'' machine) = Inr ()
   \<and> read_file (files (snd (fetch_and_save_data plain_server ''http://x/ok'' ''/data/new.json''
                               machine))) ''/data/new.json'' = Inr ''{\"a\":1}''
   \<and> ''{\"a\":1}'' \<noteq> json_dump_indent4 (JObj [(''a'', JInt 1)])
   \<and> strictly_inside (files machine) ''/./data/new.json''
   \<and> \<not> os_path_exists (files machine) ''/./data/new.json''
   \<and> fetch_and_save_data object_server ''http://x/ok'' ''/./data/new.json'' machine =
       (Inl (PermissionError ''Access outside /data is not allowed: /./data/new.json''), machine)
   \<and> strictly_inside (files machine) ''/data/sub/new.json''
   \<and> \<not> os_path_exists (files machine) ''/data/sub/new.json''
   \<and> fetch_and_save_data object_server ''http://x/ok'' ''/data/sub/new.json'' machine =
       (Inl (FileNotFoundError ''/data/sub/new.json''), log_effect (HttpGet ''http://x/ok'') machine)"
proof -
  have gate: "enforce_security ''/data/new.json'' False machine = (Inr True, machine)"
    using machine_new_json_missing by (simp add: enforce_security_def startswith_def)
  have run: "fetch_and_save_data plain_server ''http://x/ok'' ''/data/new.json'' machine =
      (Inr (), (log_effect (HttpGet ''http://x/ok'') machine)
                 \<lparr>files := file_write ((files machine)([''data'', ''new.json''] \<mapsto> File []))
                             [''data'', ''new.json''] ''{\"a\":1}''\<rparr>)"
    using gate machine_open_new_json
    by (simp add: fetch_and_save_data_def fetch_and_save_data_body_def and_then_def Let_def
        plain_server_def offline_def response_data_def save_data_def log_effect_def)
  have content: "read_file (file_write ((files machine)([''data'', ''new.json''] \<mapsto> File []))
                             [''data'', ''new.json''] ''{\"a\":1}'') ''/data/new.json''
                   = Inr ''{\"a\":1}''"
    using machine_open_new_json by (rule open_w_then_written(1))
  have raw: "''{\"a\":1}'' \<noteq> json_dump_indent4 (JObj [(''a'', JInt 1)])"
    by (simp add: dump_a1)
  have dotted: "strictly_inside (files machine) ''/./data/new.json''
      \<and> \<not> os_path_exists (files machine) ''/./data/new.json''
      \<and> fetch_and_save_data object_server ''http://x/ok'' ''/./data/new.json'' machine =
          (Inl (PermissionError ''Access outside /data is not allowed: /./data/new.json''), machine)"
    by (simp add: strictly_inside_def sandbox_root_def strict_prefix_def fs_eval
        fetch_and_save_data_def enforce_security_def and_then_def)
  have sub: "strictly_inside (files machine) ''/data/sub/new.json''
      \<and> \<not> os_path_exists (files machine) ''/data/sub/new.json''"
    by (simp add: strictly_inside_def sandbox_root_def strict_prefix_def fs_eval)
  have unopened: "fetch_and_save_data object_server ''http://x/ok'' ''/data/sub/new.json'' machine =
       (Inl (FileNotFoundError ''/data/sub/new.json''), log_effect (HttpGet ''http://x/ok'') machine)"
    by (simp add: fetch_and_save_data_def fetch_and_save_data_body_def and_then_def Let_def
        enforce_security_def object_server_def offline_def json_response_def response_data_def
        save_data_def log_effect_def open_w_def fs_eval)
  from run content raw dotted sub unopened show ?thesis
    by (simp add: plain_server_def offline_def)
qed




section \<open>Claims the code does not keep\<close>

text \<open>
  Claim C1 says that the check denies every path that resolves outside the sandbox
  root. The code tests the prefix of the string it is given, so it lets through a path
  that leaves \<^verbatim>\<open>/data\<close> by \<^verbatim>\<open>..\<close>, a path through a symbolic link in the sandbox that
  leads outside, and a path in a sibling directory whose name starts with \<^verbatim>\<open>data\<close>: each
  of the three names a location outside \<^verbatim>\<open>/data\<close>, and fetch-and-save, given the first,
  writes its file in \<^verbatim>\<open>/etc\<close>. The path \<^verbatim>\<open>/data/../etc/passwd\<close> is denied because the file
  exists, not because it lies outside, and with \<open>allow_deletion\<close> it is let through.
\<close>

theorem check_permits_paths_that_leave_the_sandbox:
  "enforce_security ''/data/../etc/cron.d'' False machine = (Inr True, machine)
   \<and> target (files machine) ''/data/../etc/cron.d'' max_symlinks []
         (split_path ''/data/../etc/cron.d'') = Inr [''etc'', ''cron.d'']
   \<and> enforce_security ''/data/link/cron.d'' False machine = (Inr True, machine)
   \<and> target (files machine) ''/data/link/cron.d'' max_symlinks []
         (split_path ''/data/link/cron.d'') = Inr [''etc'', ''cron.d'']
   \<and> enforce_security ''/database/x'' False machine = (Inr True, machine)
   \<and> target (files machine) ''/database/x'' max_symlinks []
         (split_path ''/database/x'') = Inr [''database'', ''x'']
   \<and> enforce_security ''/data/../etc/passwd'' False machine =
       (Inl (PermissionError
              ''Deletion/modification of existing files is not allowed: /data/../etc/passwd''),
        machine)
   \<and> enforce_security ''/data/../etc/passwd'' True machine = (Inr True, machine)
   \<and> fst (fetch_and_save_data object_server ''http://x/ok'' ''/data/../etc/cron.d'' machine) = Inr ()
   \<and> files (snd (fetch_and_save_data object_server ''http://x/ok'' ''/data/../etc/cron.d'' machine))
         [''etc'', ''cron.d''] = Some (File (json_dump_indent4 (JObj [(''a'', JInt 1)])))"
  by (simp add: enforce_security_def fs_eval fetch_and_save_data_def
      fetch_and_save_data_body_def and_then_def Let_def object_server_def offline_def
      json_response_def response_data_def save_data_def log_effect_def open_w_def
      file_write_def)

text \<open>
  Claim C3 says that the check never looks at the existence of a path that is only
  read. The code checks every path the same way: a query against a database file that
  exists in the sandbox is refused before the database is opened, with the message for
  a deletion or modification, though the file would only be read.
\<close>

theorem existing_database_is_refused:
  "execute_sql_query object_server ''/data/in.db'' ''SELECT 1'' ''/data/out.json'' machine =
     (Inl (PermissionError
            ''Deletion/modification of existing files is not allowed: /data/in.db''), machine)"
  using machine_in_db_exists
  by (simp add: execute_sql_query_def enforce_security_def startswith_def and_then_def)

text \<open>
  Claim C5 says that the repository path of clone-and-commit is exempt from the rule
  for new files. The code checks \<^verbatim>\<open>/data/repo\<close> with the default \<open>allow_deletion\<close>: with
  the repository there from an earlier run, the call is refused and no \<^verbatim>\<open>git\<close> command
  runs, so the branch that skips the clone is never reached.
\<close>

theorem existing_repository_is_refused:
  "clone_git_repo object_server ''https://x/r.git'' ''update'' machine =
     (Inl (PermissionError
            ''Deletion/modification of existing files is not allowed: /data/repo''), machine)"
  using machine_repo_exists
  by (simp add: clone_git_repo_def enforce_security_def startswith_def and_then_def
      repo_path_def)

text \<open>
  Claim C7 says that a policy violation on the HTTP interface is answered with an error
  object and a client-error status. On the \<^verbatim>\<open>filter_csv\<close> route \<^verbatim>\<open>enforce_security\<close>
  stands before the \<^verbatim>\<open>try\<close>: for a \<open>csv_path\<close> outside the sandbox the \<^verbatim>\<open>PermissionError\<close>
  leaves the view function, nothing is read, and the framework answers with its page
  for an internal error, status 500. The same function answers an unknown column with
  an error object and status 400, and wraps every exception inside the \<^verbatim>\<open>try\<close> in an
  error object.
\<close>

theorem policy_violation_is_answered_500:
  "\<not> permits ''/etc/passwd'' False machine
   \<and> filter_csv object_server
        (JObj [(''csv_path'', JStr ''/etc/passwd''), (''filter_column'', JStr ''name''),
               (''filter_value'', JStr ''root'')]) machine
       = (Inl (PermissionError ''Access outside /data is not allowed: /etc/passwd''), machine)
   \<and> http_answer (fst (filter_csv object_server
        (JObj [(''csv_path'', JStr ''/etc/passwd''), (''filter_column'', JStr ''name''),
               (''filter_value'', JStr ''root'')]) machine)) = (ServerErrorPage, 500)
   \<and> \<not> client_error 500 \<and> server_error 500"
  by (simp add: permits_def enforce_security_def startswith_def filter_csv_def data_get_def
      and_then_def http_answer_def client_error_def server_error_def)

end
